theory Spec2Isabelle
  imports Complex_Main "HOL-Library.AList" "HOL-Library.Log_Nat"
begin

section \<open>Python values used by app.py\<close>

text \<open>
  A Python \<open>str\<close> is a sequence of Unicode code points; \<open>str_of\<close> embeds an ASCII
  literal. A \<open>datetime.date\<close> is represented by its proleptic Gregorian ordinal
  (\<open>date.toordinal()\<close>): comparison of dates is comparison of ordinals and
  \<open>(d2 - d1).days\<close> is the difference of the ordinals.
\<close>

type_synonym pystr = "nat list"

definition str_of :: "string \<Rightarrow> pystr" where
  "str_of s = map of_char s"

type_synonym date = int

definition days_between :: "date \<Rightarrow> date \<Rightarrow> int" where
  \<comment> \<open>\<open>(date_out - date_in).days\<close>\<close>
  "days_between date_out date_in = date_out - date_in"

text \<open>
  A raised exception. \<open>Exception m\<close> is an instance of \<open>Exception\<close> (or of a subclass)
  whose \<open>str\<close> is \<open>m\<close>; \<open>NonException m\<close> is a \<open>BaseException\<close> outside
  \<open>Exception\<close> (\<open>KeyboardInterrupt\<close>, \<open>SystemExit\<close>), which \<open>except Exception\<close>
  does not catch.
\<close>

datatype exc = is_Exception: Exception (message: pystr) | NonException (message: pystr)

subsection \<open>Floats\<close>

text \<open>
  A Python \<open>float\<close> is an IEEE 754 double: a finite value (the rational number it
  denotes), an infinity with its sign (\<open>Infinity True\<close> is \<open>inf\<close>) or \<open>nan\<close>. The sign
  of a zero is not represented. \<open>round_double\<close> is the rounding of every float
  operation and conversion: to the nearest double, a tie to the one with the even
  significand, with 53 bits of significand, exponents from \<open>-1074\<close> and overflow to
  infinity from \<open>2 ^ 1024\<close>.
\<close>

datatype pyfloat = Finite rat | Infinity bool | NaN

definition floor_log2 :: "rat \<Rightarrow> int" where
  \<comment> \<open>for \<open>a > 0\<close>, the \<open>k\<close> with \<open>2 ^ k \<le> a < 2 ^ (k + 1)\<close>\<close>
  "floor_log2 a = (if 1 \<le> a then bitlen \<lfloor>a\<rfloor> - 1 else - bitlen (\<lceil>1 / a\<rceil> - 1))"

definition scale2 :: "rat \<Rightarrow> int \<Rightarrow> rat" where
  \<comment> \<open>\<open>a\<close> times two to the power \<open>e\<close>\<close>
  "scale2 a e = (if 0 \<le> e then a * 2 ^ nat e else a / 2 ^ nat (- e))"

definition round_half_even :: "rat \<Rightarrow> int" where
  "round_half_even q =
     (let f = \<lfloor>q\<rfloor>; r = q - of_int f
      in if r < 1 / 2 then f else if 1 / 2 < r then f + 1 else if even f then f else f + 1)"

definition round_double :: "rat \<Rightarrow> pyfloat" where
  "round_double x =
     (if x = 0 then Finite 0
      else
        (let a = \<bar>x\<bar>;
             e = max (floor_log2 a - 52) (- 1074);
             r = scale2 (of_int (round_half_even (scale2 a (- e)))) e
         in if 2 ^ 1024 \<le> r then Infinity (0 < x)
            else Finite (if 0 < x then r else - r)))"

definition float_of_int :: "int \<Rightarrow> pyfloat" where
  \<comment> \<open>the conversion of the \<open>int\<close> operand of a mixed product (for an \<open>int\<close> beyond the
      doubles Python raises; a number of nights is far below)\<close>
  "float_of_int n = round_double (of_int n)"

fun fmul :: "pyfloat \<Rightarrow> pyfloat \<Rightarrow> pyfloat" where
  "fmul NaN y = NaN"
| "fmul x NaN = NaN"
| "fmul (Finite a) (Finite b) = round_double (a * b)"
| "fmul (Finite a) (Infinity t) = (if a = 0 then NaN else Infinity (t = (0 < a)))"
| "fmul (Infinity s) (Finite b) = (if b = 0 then NaN else Infinity (s = (0 < b)))"
| "fmul (Infinity s) (Infinity t) = Infinity (s = t)"

fun fadd :: "pyfloat \<Rightarrow> pyfloat \<Rightarrow> pyfloat" where
  "fadd NaN y = NaN"
| "fadd x NaN = NaN"
| "fadd (Finite a) (Finite b) = round_double (a + b)"
| "fadd (Finite a) (Infinity t) = Infinity t"
| "fadd (Infinity s) (Finite b) = Infinity s"
| "fadd (Infinity s) (Infinity t) = (if s = t then Infinity s else NaN)"

text \<open>
  What the format \<open>,.0f\<close> prints: for a finite float the whole number nearest to its
  value, a tie going to the even one (\<open>Digits n\<close> is \<open>n\<close> in decimal digits with
  thousands separators; for a negative value that rounds to zero Python prints
  \<open>-0\<close>, which is \<open>Digits 0\<close> here), and the words \<open>inf\<close>, \<open>-inf\<close> and \<open>nan\<close>
  otherwise.
\<close>

datatype figure = Digits int | InfText bool | NanText

fun format_0f :: "pyfloat \<Rightarrow> figure" where
  "format_0f (Finite q) = Digits (round_half_even q)"
| "format_0f (Infinity s) = InfText s"
| "format_0f NaN = NanText"

section \<open>The database connection (lines 82-104)\<close>

text \<open>
  The psycopg2 connection as a transactional store: \<open>committed\<close> is the state of the
  database that other sessions see, \<open>working\<close> the state inside the open transaction.
  \<open>events\<close> records, in order, what was done with the connection. Closing a connection
  discards an open transaction. The database server is a parameter \<open>engine\<close>: it maps
  a statement and the working state to the new working state and either an exception
  or a result (what the stored procedures and views do is not part of app.py); a
  statement that raises may have changed the working state before. Connecting,
  \<open>commit\<close>, \<open>rollback\<close> and \<open>close\<close> themselves are taken to succeed.
\<close>

datatype 's event = EvConnect | EvExecute 's | EvCommit | EvRollback | EvClose

record ('db, 's) connection =
  committed :: 'db
  working :: 'db
  closed :: bool
  events :: "'s event list"

type_synonym ('db, 's, 'r) engine = "'s \<Rightarrow> 'db \<Rightarrow> 'db \<times> (exc + 'r)"

definition psycopg2_connect :: "'db \<Rightarrow> ('db, 's) connection" where
  "psycopg2_connect db = \<lparr>committed = db, working = db, closed = False, events = [EvConnect]\<rparr>"

definition conn_commit :: "('db, 's) connection \<Rightarrow> ('db, 's) connection" where
  "conn_commit conn = conn\<lparr>committed := working conn, events := events conn @ [EvCommit]\<rparr>"

definition conn_rollback :: "('db, 's) connection \<Rightarrow> ('db, 's) connection" where
  "conn_rollback conn = conn\<lparr>working := committed conn, events := events conn @ [EvRollback]\<rparr>"

definition conn_close :: "('db, 's) connection \<Rightarrow> ('db, 's) connection" where
  "conn_close conn =
     conn\<lparr>working := committed conn, closed := True, events := events conn @ [EvClose]\<rparr>"

definition cursor_execute ::
  "('db, 's, 'r) engine \<Rightarrow> 's \<Rightarrow> ('db, 's) connection \<Rightarrow> ('db, 's) connection \<times> (exc + 'r)" where
  "cursor_execute engine sql conn =
     (case engine sql (working conn) of
        (w, r) \<Rightarrow> (conn\<lparr>working := w, events := events conn @ [EvExecute sql]\<rparr>, r))"

text \<open>
  \<open>get_db\<close>: the body of the \<open>with\<close> block runs at the \<open>yield\<close>. When it returns,
  \<open>conn.commit()\<close> runs; when it raises an \<open>Exception\<close>, \<open>conn.rollback()\<close> runs and
  the exception is raised again; \<open>conn.close()\<close> runs in the \<open>finally\<close> clause on
  every path. The result is the connection as it is left and what the \<open>with\<close>
  statement returns or raises.
\<close>

definition get_db ::
  "(('db, 's) connection \<Rightarrow> ('db, 's) connection \<times> (exc + 'a)) \<Rightarrow> 'db
     \<Rightarrow> ('db, 's) connection \<times> (exc + 'a)" where
  "get_db body db =
     (case body (psycopg2_connect db) of
        (conn, Inr v) \<Rightarrow> (conn_close (conn_commit conn), Inr v)
      | (conn, Inl e) \<Rightarrow>
          if is_Exception e then (conn_close (conn_rollback conn), Inl e)
          else (conn_close conn, Inl e))"

definition run_query ::
  "('db, 's, 'r) engine \<Rightarrow> 's \<Rightarrow> 'db \<Rightarrow> ('db, 's) connection \<times> (exc + 'r)" where
  "run_query engine sql db = get_db (cursor_execute engine sql) db"

definition run_procedure ::
  "('db, 's, 'r) engine \<Rightarrow> 's \<Rightarrow> 'db \<Rightarrow> ('db, 's) connection \<times> (exc + unit)" where
  "run_procedure engine sql db =
     get_db (\<lambda>conn. case cursor_execute engine sql conn of
                       (conn', Inl e) \<Rightarrow> (conn', Inl e)
                     | (conn', Inr _) \<Rightarrow> (conn', Inr ())) db"

section \<open>What a page does\<close>

text \<open>
  The statements that app.py sends through \<open>run_procedure\<close>, each with its
  parameters: the \<open>INSERT INTO guests\<close> of line 321, \<open>CALL make_booking\<close> of
  line 289 and \<open>CALL cancel_booking\<close> of line 375.
\<close>

datatype statement =
    InsertGuest pystr pystr pystr
  | MakeBooking int int date date
  | CancelBooking int

text \<open>
  The texts shown to the user are constructors (the literals of app.py are Russian):
  \<open>MsgErrorOf e\<close> is the f-string of lines 293, 326 and 379 around \<open>e\<close>.
\<close>

datatype msg =
    MsgRequired
  | MsgGuestRegistered pystr
  | MsgDateOrder
  | MsgBooked
  | MsgCancelled
  | MsgNoActive
  | MsgErrorOf exc

datatype element =
    StError msg
  | StSuccess msg
  | StInfo msg
  | StMetricCost figure int

datatype control = Finished | Rerun | Raised exc

record 'db page_result =
  database :: 'db
  db_events :: "statement event list"
  shown :: "element list"
  control :: control

definition no_db_action :: "'db \<Rightarrow> element list \<Rightarrow> 'db page_result" where
  "no_db_action db els = \<lparr>database = db, db_events = [], shown = els, control = Finished\<rparr>"

text \<open>
  What follows a \<open>try: run_procedure(...) ... except Exception as e: st.error(...)\<close>:
  \<open>ok\<close> and \<open>after\<close> are what the \<open>try\<close> body shows and does after the call returned.
\<close>

definition try_procedure ::
  "('db, statement, 'r) engine \<Rightarrow> statement \<Rightarrow> 'db \<Rightarrow> element list \<Rightarrow> msg \<Rightarrow> control
     \<Rightarrow> 'db page_result" where
  "try_procedure engine sql db before ok after =
     (case run_procedure engine sql db of
        (conn, Inr _) \<Rightarrow>
          \<lparr>database = committed conn, db_events = events conn,
           shown = before @ [StSuccess ok], control = after\<rparr>
      | (conn, Inl e) \<Rightarrow>
          if is_Exception e
          then \<lparr>database = committed conn, db_events = events conn,
                shown = before @ [StError (MsgErrorOf e)], control = Finished\<rparr>
          else \<lparr>database = committed conn, db_events = events conn,
                shown = before, control = Raised e\<rparr>)"

subsection \<open>Widgets\<close>

text \<open>
  \<open>st.selectbox\<close> returns the option the user picked (the first one when nothing
  was picked) and \<open>None\<close> when there is no option. \<open>st.date_input\<close> returns the
  date the user picked, which the widget keeps at or after \<open>min_value\<close>, and \<open>value\<close>
  when nothing was picked.
\<close>

definition st_selectbox :: "'a list \<Rightarrow> nat \<Rightarrow> 'a option" where
  "st_selectbox options pick =
     (case options of
        [] \<Rightarrow> None
      | x # _ \<Rightarrow> Some (if pick < length options then options ! pick else x))"

definition st_date_input :: "date \<Rightarrow> date \<Rightarrow> date option \<Rightarrow> date" where
  "st_date_input val min_value picked =
     (case picked of
        None \<Rightarrow> val
      | Some d \<Rightarrow> if min_value \<le> d then d else val)"

definition IndexError :: exc where
  "IndexError = Exception (str_of ''index 0 is out of bounds for axis 0 with size 0'')"

definition KeyError :: exc where
  "KeyError = Exception (str_of ''None'')"

definition values0 :: "'a list \<Rightarrow> exc + 'a" where
  \<comment> \<open>\<open>.values[0]\<close> and \<open>.iloc[0]\<close>\<close>
  "values0 xs = (case xs of [] \<Rightarrow> Inl IndexError | x # _ \<Rightarrow> Inr x)"

subsection \<open>Guest registration (lines 309-326)\<close>

definition guest_form ::
  "('db, statement, 'r) engine \<Rightarrow> bool \<Rightarrow> pystr \<Rightarrow> pystr \<Rightarrow> pystr \<Rightarrow> 'db \<Rightarrow> 'db page_result" where
  "guest_form engine submit name passport phone db =
     (if submit then
        (if name = [] \<or> passport = [] then no_db_action db [StError MsgRequired]
         else try_procedure engine (InsertGuest name passport phone) db []
                (MsgGuestRegistered name) Finished)
      else no_db_action db [])"

subsection \<open>Booking (lines 234-293)\<close>

record room_status_row =
  room_id :: int
  room_number :: int
  type_name :: pystr
  price_per_night :: rat
  status :: pystr

record guest_row =
  guest_id :: int
  full_name :: pystr

definition select_room :: "room_status_row list \<Rightarrow> nat \<Rightarrow> exc + room_status_row" where
  \<comment> \<open>lines 241-246: the select box over the room numbers, then the first row with that number\<close>
  "select_room rooms_df pick =
     values0 (filter (\<lambda>r. Some (room_number r) = st_selectbox (map room_number rooms_df) pick)
                rooms_df)"

text \<open>
  \<open>price_per_night\<close> is the price as the view has it, a decimal number;
  \<open>float(...)\<close> of it is the nearest double (also when pandas has converted the
  column before), and \<open>nights * float(...)\<close> is the float product.
\<close>

definition cost_preview :: "room_status_row \<Rightarrow> date \<Rightarrow> date \<Rightarrow> (int \<times> pyfloat) option" where
  \<comment> \<open>lines 276-278: \<open>nights\<close> and \<open>cost\<close>, when they are computed\<close>
  "cost_preview room_row date_in date_out =
     (if date_out > date_in then
        (let nights = days_between date_out date_in;
             cost = fmul (float_of_int nights) (round_double (price_per_night room_row))
         in Some (nights, cost))
      else None)"

definition preview_elements :: "room_status_row \<Rightarrow> date \<Rightarrow> date \<Rightarrow> element list" where
  \<comment> \<open>line 279\<close>
  "preview_elements room_row date_in date_out =
     (case cost_preview room_row date_in date_out of
        None \<Rightarrow> []
      | Some (nights, cost) \<Rightarrow> [StMetricCost (format_0f cost) nights])"

definition guest_id_of :: "guest_row list \<Rightarrow> pystr option \<Rightarrow> exc + int" where
  \<comment> \<open>line 288\<close>
  "guest_id_of guests_df selected_guest =
     (case values0 (filter (\<lambda>g. Some (full_name g) = selected_guest) guests_df) of
        Inl e \<Rightarrow> Inl e
      | Inr g \<Rightarrow> Inr (guest_id g))"

definition booking_submit ::
  "('db, statement, 'r) engine \<Rightarrow> guest_row list \<Rightarrow> room_status_row \<Rightarrow> pystr option
     \<Rightarrow> date \<Rightarrow> date \<Rightarrow> bool \<Rightarrow> 'db \<Rightarrow> 'db page_result" where
  \<comment> \<open>lines 275-293, after the three widgets returned\<close>
  "booking_submit engine guests_df room_row selected_guest date_in date_out submit db =
     (let preview = preview_elements room_row date_in date_out in
      if submit then
        (if date_out \<le> date_in then no_db_action db (preview @ [StError MsgDateOrder])
         else
           (case guest_id_of guests_df selected_guest of
              Inl e \<Rightarrow> no_db_action db (preview @ [StError (MsgErrorOf e)])
            | Inr g_id \<Rightarrow>
                try_procedure engine (MakeBooking g_id (room_id room_row) date_in date_out) db
                  preview MsgBooked Rerun))
      else no_db_action db preview)"

definition booking_form ::
  "('db, statement, 'r) engine \<Rightarrow> date \<Rightarrow> guest_row list \<Rightarrow> room_status_row \<Rightarrow> nat
     \<Rightarrow> date option \<Rightarrow> date option \<Rightarrow> bool \<Rightarrow> 'db \<Rightarrow> 'db page_result" where
  \<comment> \<open>lines 270-293; \<open>today\<close> is \<open>date.today()\<close>\<close>
  "booking_form engine today guests_df room_row guest_pick in_pick out_pick submit db =
     (let selected_guest = st_selectbox (map full_name guests_df) guest_pick;
          date_in = st_date_input today today in_pick;
          date_out = st_date_input (today + 1) (today + 1) out_pick
      in booking_submit engine guests_df room_row selected_guest date_in date_out submit db)"

subsection \<open>Bookings and cancellation (lines 344-379)\<close>

record booking_listing =
  booking_id :: int
  guest :: pystr
  room_no :: int
  check_in :: date
  check_out :: date
  cost :: rat
  booking_status :: pystr

definition ACTIVE :: pystr where
  "ACTIVE = str_of ''active''"

definition CANCELLED :: pystr where
  "CANCELLED = str_of ''cancelled''"

definition active_df :: "booking_listing list \<Rightarrow> booking_listing list" where
  \<comment> \<open>line 363\<close>
  "active_df df = filter (\<lambda>row. booking_status row = ACTIVE) df"

text \<open>
  The dict comprehension of lines 368-371: a later row with the label of an earlier
  one replaces its value and keeps its place. The f-string that builds the label is
  the parameter \<open>label\<close>.
\<close>

definition booking_options ::
  "(booking_listing \<Rightarrow> pystr) \<Rightarrow> booking_listing list \<Rightarrow> (pystr \<times> int) list" where
  "booking_options label df =
     foldl (\<lambda>d row. AList.update (label row) (booking_id row) d) [] (active_df df)"

definition dict_getitem :: "('k \<times> 'v) list \<Rightarrow> 'k option \<Rightarrow> exc + 'v" where
  "dict_getitem d key =
     (case key of
        None \<Rightarrow> Inl KeyError
      | Some k \<Rightarrow> (case map_of d k of None \<Rightarrow> Inl KeyError | Some v \<Rightarrow> Inr v))"

definition cancel_section ::
  "('db, statement, 'r) engine \<Rightarrow> (booking_listing \<Rightarrow> pystr) \<Rightarrow> booking_listing list \<Rightarrow> nat
     \<Rightarrow> bool \<Rightarrow> 'db \<Rightarrow> 'db page_result" where
  "cancel_section engine label df pick clicked db =
     (if active_df df = [] then no_db_action db [StInfo MsgNoActive]
      else
        (let options = booking_options label df;
             selected_label = st_selectbox (map fst options) pick
         in if clicked then
              (case dict_getitem options selected_label of
                 Inl e \<Rightarrow> no_db_action db [StError (MsgErrorOf e)]
               | Inr b \<Rightarrow> try_procedure engine (CancelBooking b) db [] MsgCancelled Rerun)
            else no_db_action db []))"

subsection \<open>Dashboard (lines 144-186)\<close>

text \<open>
  The two status values of \<open>room_status_view\<close> as app.py writes them: the Russian
  words for "occupied" (line 148) and "free" (line 167), as code points.
\<close>

definition STATUS_OCCUPIED :: pystr where
  "STATUS_OCCUPIED = [0x417, 0x430, 0x43D, 0x44F, 0x442]"

definition STATUS_FREE :: pystr where
  "STATUS_FREE = [0x421, 0x432, 0x43E, 0x431, 0x43E, 0x434, 0x435, 0x43D]"

definition total_rooms :: "pystr list \<Rightarrow> int" where
  "total_rooms rooms_df = int (length rooms_df)"

definition occupied_rooms :: "pystr list \<Rightarrow> int" where
  "occupied_rooms rooms_df = int (length (filter (\<lambda>s. s = STATUS_OCCUPIED) rooms_df))"

definition free_rooms :: "pystr list \<Rightarrow> int" where
  "free_rooms rooms_df = total_rooms rooms_df - occupied_rooms rooms_df"

definition active_bookings :: "(pystr \<times> pyfloat) list \<Rightarrow> int" where
  "active_bookings bookings_df = int (length (filter (\<lambda>(s, c). s = ACTIVE) bookings_df))"


definition left_sum :: "pyfloat list \<Rightarrow> pyfloat" where
  "left_sum xs = foldl fadd (Finite 0) xs"

text \<open>
  The tables that the dashboard's queries read, with the columns the queries name.
  \<open>total_cost\<close> and \<open>price_per_night\<close> are decimal numbers in the database, and the
  \<open>SUM\<close> of the grouped query is the database's sum of decimal numbers.
\<close>

record booking =
  b_booking_id :: int
  b_guest_id :: int
  b_room_id :: int
  b_check_in :: date
  b_check_out :: date
  b_total_cost :: rat
  b_status :: pystr

record room =
  r_room_id :: int
  r_room_number :: int
  r_type_id :: int

record room_type =
  rt_type_id :: int
  rt_type_name :: pystr
  rt_price_per_night :: rat


definition revenue_join :: "booking list \<Rightarrow> room list \<Rightarrow> room_type list \<Rightarrow> (pystr \<times> rat) list" where
  \<comment> \<open>lines 177-180: the two joins and the \<open>WHERE\<close> clause\<close>
  "revenue_join bookings rooms room_types =
     [(rt_type_name rt, b_total_cost b).
        b \<leftarrow> bookings, r \<leftarrow> rooms, b_room_id b = r_room_id r,
        rt \<leftarrow> room_types, r_type_id r = rt_type_id rt, b_status b = ACTIVE]"

definition revenue_by_type :: "booking list \<Rightarrow> room list \<Rightarrow> room_type list \<Rightarrow> (pystr \<times> rat) list" where
  \<comment> \<open>lines 175-182: \<open>GROUP BY rt.type_name\<close> with \<open>SUM(b.total_cost)\<close>\<close>
  "revenue_by_type bookings rooms room_types =
     (let joined = revenue_join bookings rooms room_types
      in map (\<lambda>n. (n, sum_list (map snd (filter (\<lambda>(m, c). m = n) joined))))
           (remdups (map fst joined)))"

text \<open>
  The type name of a booking's room, by the keys: the room with the booking's
  \<open>room_id\<close> and the room type with that room's \<open>type_id\<close>.
\<close>

definition type_name_of :: "room list \<Rightarrow> room_type list \<Rightarrow> booking \<Rightarrow> pystr option" where
  "type_name_of rooms room_types b =
     (case find (\<lambda>r. b_room_id b = r_room_id r) rooms of
        None \<Rightarrow> None
      | Some r \<Rightarrow>
          (case find (\<lambda>rt. r_type_id r = rt_type_id rt) room_types of
             None \<Rightarrow> None
           | Some rt \<Rightarrow> Some (rt_type_name rt)))"


subsection \<open>History (lines 392-405)\<close>

text \<open>
  \<open>Series.str.contains(pat, case=False, na=False)\<close> compiles \<open>pat\<close> as a regular
  expression with \<open>re.IGNORECASE\<close> (its \<open>regex\<close> parameter is \<open>True\<close> unless given)
  and asks \<open>re.search\<close> of every value; a missing value gives \<open>False\<close>. The patterns
  modelled here are the sequences of ordinary characters and dots: \<open>re_compile\<close> is
  \<open>None\<close> on a pattern with another special character of Python's \<open>re\<close>. Two
  characters are equal under \<open>re.IGNORECASE\<close> when \<open>lower\<close>, the lower-casing of the
  Unicode tables, maps them to the same character.
\<close>

datatype re_item = Literal nat | AnyChar

definition special_chars :: "nat list" where
  \<comment> \<open>\<open>. ^ $ * + ? { } [ ] \ | ( )\<close>\<close>
  "special_chars = [46, 94, 36, 42, 43, 63, 123, 125, 91, 93, 92, 124, 40, 41]"

fun re_compile :: "pystr \<Rightarrow> re_item list option" where
  "re_compile [] = Some []"
| "re_compile (c # cs) =
     (if c = 46 then map_option ((#) AnyChar) (re_compile cs)
      else if c \<in> set special_chars then None
      else map_option ((#) (Literal c)) (re_compile cs))"

fun match_here :: "(nat \<Rightarrow> nat) \<Rightarrow> re_item list \<Rightarrow> pystr \<Rightarrow> bool" where
  "match_here lower [] s = True"
| "match_here lower (i # p) [] = False"
| "match_here lower (Literal c # p) (d # s) = (lower d = lower c \<and> match_here lower p s)"
| "match_here lower (AnyChar # p) (d # s) = (d \<noteq> 10 \<and> match_here lower p s)"

fun re_search :: "(nat \<Rightarrow> nat) \<Rightarrow> re_item list \<Rightarrow> pystr \<Rightarrow> bool" where
  "re_search lower p [] = match_here lower p []"
| "re_search lower p (d # s) = (match_here lower p (d # s) \<or> re_search lower p s)"

definition str_contains :: "(nat \<Rightarrow> nat) \<Rightarrow> pystr \<Rightarrow> pystr option list \<Rightarrow> bool list option" where
  "str_contains lower pat column =
     (case re_compile pat of
        None \<Rightarrow> None
      | Some p \<Rightarrow>
          Some (map (\<lambda>x. case x of None \<Rightarrow> False | Some s \<Rightarrow> re_search lower p s) column))"

text \<open>
  A row of \<open>booking_history_view\<close>: the guest's name may be missing. The columns that
  the filter does not read are the record's extension.
\<close>

record history_row =
  history_id :: int
  history_guest :: "pystr option"
  history_action :: pystr

definition boolean_index :: "'a list \<Rightarrow> bool list \<Rightarrow> 'a list" where
  \<comment> \<open>\<open>df[keep]\<close>, \<open>keep\<close> a boolean column\<close>
  "boolean_index df keep = map fst (filter snd (zip df keep))"

definition history_search ::
  "(nat \<Rightarrow> nat) \<Rightarrow> pystr \<Rightarrow> 'a history_row_scheme list \<Rightarrow> 'a history_row_scheme list option" where
  \<comment> \<open>lines 401-403; \<open>None\<close> only where \<open>re_compile\<close> is\<close>
  "history_search lower search df =
     (if search \<noteq> [] then
        map_option (boolean_index df) (str_contains lower search (map history_guest df))
      else Some df)"

text \<open>
  Containment of \<open>needle\<close> in \<open>hay\<close> as a substring, up to case: the reading of
  "substring, case-insensitive" that the filter is compared with.
\<close>

fun prefix_ci :: "(nat \<Rightarrow> nat) \<Rightarrow> pystr \<Rightarrow> pystr \<Rightarrow> bool" where
  "prefix_ci lower [] s = True"
| "prefix_ci lower (c # n) [] = False"
| "prefix_ci lower (c # n) (d # s) = (lower d = lower c \<and> prefix_ci lower n s)"

fun substring_ci :: "(nat \<Rightarrow> nat) \<Rightarrow> pystr \<Rightarrow> pystr \<Rightarrow> bool" where
  "substring_ci lower n [] = prefix_ci lower n []"
| "substring_ci lower n (d # s) = (prefix_ci lower n (d # s) \<or> substring_ci lower n s)"

definition name_contains_ci :: "(nat \<Rightarrow> nat) \<Rightarrow> pystr \<Rightarrow> 'a history_row_scheme \<Rightarrow> bool" where
  "name_contains_ci lower search row =
     (case history_guest row of None \<Rightarrow> False | Some s \<Rightarrow> substring_ci lower search s)"

definition ascii_lower :: "nat \<Rightarrow> nat" where
  \<comment> \<open>lower-casing, on ASCII\<close>
  "ascii_lower c = (if 65 \<le> c \<and> c \<le> 90 then c + 32 else c)"

section \<open>Transactions (lines 82-104)\<close>

lemma run_procedure_raises:
  assumes "engine sql db = (w, Inl e)"
  shows "run_procedure engine sql db =
           (\<lparr>committed = db, working = db, closed = True,
             events = [EvConnect, EvExecute sql] @ (if is_Exception e then [EvRollback] else [])
                        @ [EvClose]\<rparr>, Inl e)"
  using assms
  by (simp add: run_procedure_def get_db_def cursor_execute_def psycopg2_connect_def
      conn_rollback_def conn_close_def)

lemma run_procedure_returns:
  assumes "engine sql db = (w, Inr v)"
  shows "run_procedure engine sql db =
           (\<lparr>committed = w, working = w, closed = True,
             events = [EvConnect, EvExecute sql, EvCommit, EvClose]\<rparr>, Inr ())"
  using assms
  by (simp add: run_procedure_def get_db_def cursor_execute_def psycopg2_connect_def
      conn_commit_def conn_close_def)

lemma run_query_raises:
  assumes "engine sql db = (w, Inl e)"
  shows "run_query engine sql db =
           (\<lparr>committed = db, working = db, closed = True,
             events = [EvConnect, EvExecute sql] @ (if is_Exception e then [EvRollback] else [])
                        @ [EvClose]\<rparr>, Inl e)"
  using assms
  by (simp add: run_query_def get_db_def cursor_execute_def psycopg2_connect_def
      conn_rollback_def conn_close_def)

lemma run_query_returns:
  assumes "engine sql db = (w, Inr v)"
  shows "run_query engine sql db =
           (\<lparr>committed = w, working = w, closed = True,
             events = [EvConnect, EvExecute sql, EvCommit, EvClose]\<rparr>, Inr v)"
  using assms
  by (simp add: run_query_def get_db_def cursor_execute_def psycopg2_connect_def
      conn_commit_def conn_close_def)

text \<open>
  Claim C2. Every statement run through \<open>get_db\<close>, by \<open>run_procedure\<close> or by
  \<open>run_query\<close>, ends in one of two ways. When the statement raises, the exception
  reaches the caller, the database is the one before the call, and the connection
  is closed; for an \<open>Exception\<close> the rollback is issued before the close, and any
  other exception leaves the open transaction to be discarded by the close. When the
  statement returns, the transaction is committed (the database is the one the
  statement left) and the connection is closed after the commit.
\<close>

theorem get_db_commit_or_rollback:
  fixes engine :: "('db, 's, 'r) engine"
  assumes "engine sql db = (w, r)"
  shows "(\<forall>e. r = Inl e \<longrightarrow>
            run_procedure engine sql db =
              (\<lparr>committed = db, working = db, closed = True,
                events = [EvConnect, EvExecute sql]
                           @ (if is_Exception e then [EvRollback] else []) @ [EvClose]\<rparr>, Inl e)
          \<and> run_query engine sql db =
              (\<lparr>committed = db, working = db, closed = True,
                events = [EvConnect, EvExecute sql]
                           @ (if is_Exception e then [EvRollback] else []) @ [EvClose]\<rparr>, Inl e))
       \<and> (\<forall>v. r = Inr v \<longrightarrow>
            run_procedure engine sql db =
              (\<lparr>committed = w, working = w, closed = True,
                events = [EvConnect, EvExecute sql, EvCommit, EvClose]\<rparr>, Inr ())
          \<and> run_query engine sql db =
              (\<lparr>committed = w, working = w, closed = True,
                events = [EvConnect, EvExecute sql, EvCommit, EvClose]\<rparr>, Inr v))"
  using assms
  by (auto simp: run_procedure_raises run_procedure_returns run_query_raises run_query_returns)

text \<open>
  An engine over a counter: statement 0 adds one and returns, any other statement
  adds two and raises. The failed statement leaves 5, the successful one 6.
\<close>

theorem get_db_commit_or_rollback_witness:
  "run_procedure
      (\<lambda>sql db. if sql = (0::nat) then (db + 1, Inr sql) else (db + 2, Inl (Exception [])))
      1 (5::nat)
     = (\<lparr>committed = 5, working = 5, closed = True,
         events = [EvConnect, EvExecute 1, EvRollback, EvClose]\<rparr>, Inl (Exception []))
   \<and> run_query
      (\<lambda>sql db. if sql = (0::nat) then (db + 1, Inr sql) else (db + 2, Inl (Exception [])))
      0 (5::nat)
     = (\<lparr>committed = 6, working = 6, closed = True,
         events = [EvConnect, EvExecute 0, EvCommit, EvClose]\<rparr>, Inr 0)"
  using
    get_db_commit_or_rollback
      [of "\<lambda>sql db. if sql = (0::nat) then (db + 1, Inr sql) else (db + 2, Inl (Exception []))"
          1 "5::nat" 7 "Inl (Exception [])"]
    get_db_commit_or_rollback
      [of "\<lambda>sql db. if sql = (0::nat) then (db + 1, Inr sql) else (db + 2, Inl (Exception []))"
          0 "5::nat" 6 "Inr 0"]
  by simp

section \<open>Statements a page sends\<close>

lemma try_procedure_events:
  assumes "engine sql db = (w, r)"
  shows "db_events (try_procedure engine sql db before ok after) =
           [EvConnect, EvExecute sql] @
           (case r of Inr v \<Rightarrow> [EvCommit] | Inl e \<Rightarrow> if is_Exception e then [EvRollback] else [])
           @ [EvClose]"
    and "database (try_procedure engine sql db before ok after) = (case r of Inr v \<Rightarrow> w | Inl e \<Rightarrow> db)"
  using assms
  by (cases r; simp add: try_procedure_def run_procedure_raises run_procedure_returns)+

lemma try_procedure_executes:
  "EvExecute s \<in> set (db_events (try_procedure engine sql db before ok after)) \<longleftrightarrow> s = sql"
proof -
  obtain w r where "engine sql db = (w, r)" by (cases "engine sql db")
  then show ?thesis
    by (cases r) (auto simp: try_procedure_events)
qed

lemma try_procedure_shown:
  "set before \<subseteq> set (shown (try_procedure engine sql db before ok after))"
proof -
  obtain w r where "engine sql db = (w, r)" by (cases "engine sql db")
  then show ?thesis
    by (cases r) (auto simp: try_procedure_def run_procedure_raises run_procedure_returns)
qed

section \<open>Guest registration (lines 315-326)\<close>

text \<open>
  Claim C3. A submitted registration form whose name or passport is empty shows the
  error and does nothing with the database: no connection is opened and no
  statement is executed. When both are non-empty, the one statement executed is
  the \<open>INSERT\<close> of (name, passport, phone), and when the database accepts it the
  insert is committed and the success message is shown.
\<close>

theorem guest_form_validation:
  fixes engine :: "('db, statement, 'r) engine"
  shows "(name = [] \<or> passport = [] \<longrightarrow>
            guest_form engine True name passport phone db = no_db_action db [StError MsgRequired]
          \<and> db_events (guest_form engine True name passport phone db) = []
          \<and> database (guest_form engine True name passport phone db) = db)
       \<and> (name \<noteq> [] \<and> passport \<noteq> [] \<longrightarrow>
            (\<forall>s. EvExecute s \<in> set (db_events (guest_form engine True name passport phone db))
                   \<longleftrightarrow> s = InsertGuest name passport phone)
          \<and> (\<forall>w v. engine (InsertGuest name passport phone) db = (w, Inr v) \<longrightarrow>
                guest_form engine True name passport phone db =
                  \<lparr>database = w,
                   db_events = [EvConnect, EvExecute (InsertGuest name passport phone),
                                EvCommit, EvClose],
                   shown = [StSuccess (MsgGuestRegistered name)], control = Finished\<rparr>))"
proof -
  let ?res = "guest_form engine True name passport phone db"
  have invalid: "?res = no_db_action db [StError MsgRequired]" if "name = [] \<or> passport = []"
    using that by (auto simp: guest_form_def)
  have valid: "?res = try_procedure engine (InsertGuest name passport phone) db []
                        (MsgGuestRegistered name) Finished"
    if "name \<noteq> [] \<and> passport \<noteq> []"
    using that by (simp add: guest_form_def)
  show ?thesis
    using invalid valid
    by (auto simp: no_db_action_def try_procedure_executes)
      (simp add: try_procedure_def run_procedure_returns)
qed

text \<open>
  A database that is the list of the statements applied to it: every statement is
  accepted. An empty name is refused; the guest Ann with passport 4510 is inserted.
\<close>

theorem guest_form_validation_witness:
  "guest_form (\<lambda>sql db. (db @ [sql], Inr ())) True [] (str_of ''4510'') [] []
     = no_db_action [] [StError MsgRequired]
   \<and> guest_form (\<lambda>sql db. (db @ [sql], Inr ())) True (str_of ''Ann'') (str_of ''4510'') [] []
     = \<lparr>database = [InsertGuest (str_of ''Ann'') (str_of ''4510'') []],
        db_events = [EvConnect, EvExecute (InsertGuest (str_of ''Ann'') (str_of ''4510'') []),
                     EvCommit, EvClose],
        shown = [StSuccess (MsgGuestRegistered (str_of ''Ann''))], control = Finished\<rparr>"
  using
    guest_form_validation
      [where name = "[]" and passport = "str_of ''4510''" and phone = "[]" and db = "[]"
         and engine = "\<lambda>sql db. (db @ [sql], Inr ())"]
    guest_form_validation
      [where name = "str_of ''Ann''" and passport = "str_of ''4510''" and phone = "[]"
         and db = "[]" and engine = "\<lambda>sql db. (db @ [sql], Inr ())"]
  by (simp add: str_of_def)

section \<open>The booking form (lines 270-293)\<close>

lemma booking_submit_executes:
  "EvExecute s \<in> set (db_events
       (booking_submit engine guests_df room_row selected_guest date_in date_out submit db))
     \<longleftrightarrow> submit \<and> date_in < date_out \<and>
         (\<exists>g_id. guest_id_of guests_df selected_guest = Inr g_id
                 \<and> s = MakeBooking g_id (room_id room_row) date_in date_out)"
  by (cases "guest_id_of guests_df selected_guest")
    (auto simp: booking_submit_def Let_def no_db_action_def try_procedure_executes)

lemma st_date_input_min: "min_value \<le> val \<Longrightarrow> min_value \<le> st_date_input val min_value picked"
  by (simp add: st_date_input_def split: option.splits)

text \<open>
  Claim C4. A submitted booking form whose check-out date is not after its check-in
  date shows the error and does nothing with the database. Any statement the form
  executes is a \<open>make_booking\<close> call for the selected room with the form's two
  dates, and then the check-out date is after the check-in date. When the dates
  are in order and the selected guest is found, that call is executed.
\<close>

theorem booking_submit_date_order:
  fixes engine :: "('db, statement, 'r) engine"
  shows "(date_out \<le> date_in \<longrightarrow>
            booking_submit engine guests_df room_row selected_guest date_in date_out True db
              = no_db_action db [StError MsgDateOrder])
       \<and> (\<forall>s. EvExecute s \<in> set (db_events
                  (booking_submit engine guests_df room_row selected_guest date_in date_out submit db))
              \<longrightarrow> date_out > date_in \<and>
                  (\<exists>g_id. s = MakeBooking g_id (room_id room_row) date_in date_out))
       \<and> (\<forall>g_id. date_out > date_in \<and> guest_id_of guests_df selected_guest = Inr g_id \<longrightarrow>
             EvExecute (MakeBooking g_id (room_id room_row) date_in date_out) \<in> set (db_events
                  (booking_submit engine guests_df room_row selected_guest date_in date_out True db)))"
  by (auto simp: booking_submit_executes)
    (simp add: booking_submit_def preview_elements_def cost_preview_def)

text \<open>
  Room 101 (id 3) and the guest Ann (id 7); 739038 is 2024-06-01 and 739041 is
  2024-06-04. The dates in the wrong order are refused, in the right order the
  call is made.
\<close>

theorem booking_submit_date_order_witness:
  "booking_submit (\<lambda>sql db. (db @ [sql], Inr ()))
      [\<lparr>guest_id = 7, full_name = str_of ''Ann''\<rparr>]
      \<lparr>room_id = 3, room_number = 101, type_name = str_of ''Lux'', price_per_night = 2000,
       status = STATUS_FREE\<rparr>
      (Some (str_of ''Ann'')) 739041 739038 True []
     = no_db_action [] [StError MsgDateOrder]
   \<and> EvExecute (MakeBooking 7 3 739038 739041) \<in> set (db_events
        (booking_submit (\<lambda>sql db. (db @ [sql], Inr ()))
           [\<lparr>guest_id = 7, full_name = str_of ''Ann''\<rparr>]
           \<lparr>room_id = 3, room_number = 101, type_name = str_of ''Lux'', price_per_night = 2000,
            status = STATUS_FREE\<rparr>
           (Some (str_of ''Ann'')) 739038 739041 True []))"
  using
    booking_submit_date_order
      [where date_in = 739041 and date_out = 739038 and db = "[]"
         and engine = "\<lambda>sql db. (db @ [sql], Inr ())"
         and guests_df = "[\<lparr>guest_id = 7, full_name = str_of ''Ann''\<rparr>]"
         and room_row = "\<lparr>room_id = 3, room_number = 101, type_name = str_of ''Lux'',
                          price_per_night = 2000, status = STATUS_FREE\<rparr>"
         and selected_guest = "Some (str_of ''Ann'')"]
    booking_submit_date_order
      [where date_in = 739038 and date_out = 739041 and db = "[]"
         and engine = "\<lambda>sql db. (db @ [sql], Inr ())"
         and guests_df = "[\<lparr>guest_id = 7, full_name = str_of ''Ann''\<rparr>]"
         and room_row = "\<lparr>room_id = 3, room_number = 101, type_name = str_of ''Lux'',
                          price_per_night = 2000, status = STATUS_FREE\<rparr>"
         and selected_guest = "Some (str_of ''Ann'')"]
  by (simp add: guest_id_of_def values0_def)

text \<open>
  Claim C10. Whenever the booking form executes a \<open>make_booking\<close> call, its check-in
  date is today or later and its check-out date is tomorrow or later: both dates
  come from date widgets whose minimum is today and tomorrow.
\<close>

theorem booking_form_not_in_past:
  fixes engine :: "('db, statement, 'r) engine"
  assumes "EvExecute (MakeBooking g_id r_id date_in date_out) \<in> set (db_events
             (booking_form engine today guests_df room_row guest_pick in_pick out_pick submit db))"
  shows "today \<le> date_in \<and> today + 1 \<le> date_out"
  using assms
  by (auto simp: booking_form_def Let_def booking_submit_executes st_date_input_min)

text \<open>
  Today is 2024-06-01 (739038); the user picks 2024-06-03 and 2024-06-06.
\<close>

theorem booking_form_not_in_past_witness:
  "EvExecute (MakeBooking 7 3 739040 739043) \<in> set (db_events
      (booking_form (\<lambda>sql db. (db @ [sql], Inr ())) 739038
         [\<lparr>guest_id = 7, full_name = str_of ''Ann''\<rparr>]
         \<lparr>room_id = 3, room_number = 101, type_name = str_of ''Lux'', price_per_night = 2000,
          status = STATUS_FREE\<rparr>
         0 (Some 739040) (Some 739043) True []))
   \<and> (739038::int) \<le> 739040 \<and> (739038::int) + 1 \<le> 739043"
proof -
  have sent: "EvExecute (MakeBooking 7 3 739040 739043) \<in> set (db_events
      (booking_form (\<lambda>sql db. (db @ [sql], Inr ())) 739038
         [\<lparr>guest_id = 7, full_name = str_of ''Ann''\<rparr>]
         \<lparr>room_id = 3, room_number = 101, type_name = str_of ''Lux'', price_per_night = 2000,
          status = STATUS_FREE\<rparr>
         0 (Some 739040) (Some 739043) True []))"
    by (simp add: booking_form_def booking_submit_executes st_selectbox_def st_date_input_def
        guest_id_of_def values0_def)
  from booking_form_not_in_past [OF sent] sent show ?thesis by simp
qed

section \<open>The cost preview (lines 276-279)\<close>

text \<open>
  A whole number below \<open>2 ^ 53\<close> in absolute value is a double, so rounding leaves
  it as it is, and so does a product of two of them that stays below \<open>2 ^ 53\<close>.
\<close>

lemma floor_log2_lower:
  assumes "1 \<le> a"
  shows "2 ^ nat (floor_log2 a) \<le> a" and "0 \<le> floor_log2 a"
proof -
  have pos: "0 < \<lfloor>a\<rfloor>" using assms by linarith
  from bitlen_bounds [OF pos] have "2 ^ nat (bitlen \<lfloor>a\<rfloor> - 1) \<le> \<lfloor>a\<rfloor>" by simp
  then have "rat_of_int (2 ^ nat (bitlen \<lfloor>a\<rfloor> - 1)) \<le> of_int \<lfloor>a\<rfloor>"
    by (simp only: of_int_le_iff)
  then have "(2::rat) ^ nat (bitlen \<lfloor>a\<rfloor> - 1) \<le> of_int \<lfloor>a\<rfloor>"
    by simp
  also have "\<dots> \<le> a" by simp
  finally show "2 ^ nat (floor_log2 a) \<le> a" using assms by (simp add: floor_log2_def)
  have "bitlen \<lfloor>a\<rfloor> \<noteq> 0" using pos by (simp add: bitlen_eq_zero_iff)
  with bitlen_nonneg [of "\<lfloor>a\<rfloor>"] have "1 \<le> bitlen \<lfloor>a\<rfloor>" by linarith
  then show "0 \<le> floor_log2 a" using assms by (simp add: floor_log2_def)
qed

lemma round_half_even_of_int: "round_half_even (of_int k) = k"
  by (simp add: round_half_even_def)

lemma round_double_of_int:
  assumes "\<bar>k\<bar> < 2 ^ 53"
  shows "round_double (of_int k) = Finite (of_int k)"
proof (cases "k = 0")
  case True
  then show ?thesis by (simp add: round_double_def)
next
  case False
  define a :: rat where "a = \<bar>of_int k\<bar>"
  have a_int: "a = of_int \<bar>k\<bar>" by (simp add: a_def)
  have a1: "1 \<le> a" using False unfolding a_int by simp
  have "rat_of_int \<bar>k\<bar> < rat_of_int (2 ^ 53)"
    using assms by (simp only: of_int_less_iff)
  then have a53: "a < 2 ^ 53" unfolding a_int by simp
  have "(2::rat) ^ nat (floor_log2 a) < 2 ^ 53"
    using floor_log2_lower(1) [OF a1] a53 by (rule le_less_trans)
  then have "nat (floor_log2 a) < 53"
    by (simp only: power_strict_increasing_iff [of "2::rat"] one_less_numeral_iff semiring_norm)
  with floor_log2_lower(2) [OF a1] have le: "floor_log2 a - 52 \<le> 0" by simp
  define e where "e = max (floor_log2 a - 52) (- 1074)"
  have e: "e \<le> 0" using le by (simp add: e_def)
  have "scale2 a (- e) = of_int (\<bar>k\<bar> * 2 ^ nat (- e))"
    using e by (simp add: scale2_def a_int)
  then have "round_half_even (scale2 a (- e)) = \<bar>k\<bar> * 2 ^ nat (- e)"
    by (simp only: round_half_even_of_int)
  then have r: "scale2 (of_int (round_half_even (scale2 a (- e)))) e = a"
    using e by (cases "e = 0") (simp_all add: scale2_def a_int)
  have "(2::rat) ^ 53 \<le> 2 ^ 1024"
    by (rule power_increasing) simp_all
  with a53 have "a < 2 ^ 1024" by (rule less_le_trans)
  then have big: "\<not> 2 ^ 1024 \<le> a" by (simp only: not_le)
  have x0: "rat_of_int k \<noteq> 0" using False by simp
  have sign: "(if 0 < rat_of_int k then a else - a) = of_int k"
    by (simp add: a_def)
  show ?thesis
    unfolding round_double_def Let_def a_def [symmetric] e_def [symmetric] r
    using x0 big sign by (simp only: if_False if_True)
qed

lemma format_0f_of_int: "format_0f (Finite (of_int k)) = Digits k"
  by (simp add: round_half_even_of_int)

lemma fmul_whole:
  assumes "0 < n" and "n < 2 ^ 53" and "\<bar>n * k\<bar> < 2 ^ 53"
  shows "fmul (float_of_int n) (round_double (of_int k)) = Finite (of_int (n * k))"
proof -
  have "\<bar>k\<bar> * 1 \<le> \<bar>k\<bar> * n"
    using assms(1) by (intro mult_left_mono) simp_all
  then have "\<bar>k\<bar> \<le> \<bar>n * k\<bar>"
    using assms(1) by (simp add: abs_mult mult.commute)
  with assms(3) have k: "\<bar>k\<bar> < 2 ^ 53" by linarith
  have n: "\<bar>n\<bar> < 2 ^ 53" using assms(1,2) by simp
  have "fmul (float_of_int n) (round_double (of_int k)) = round_double (of_int (n * k))"
    by (simp add: float_of_int_def round_double_of_int [OF n] round_double_of_int [OF k])
  then show ?thesis
    by (simp only: round_double_of_int [OF assms(3)])
qed

lemma preview_shown:
  "set (preview_elements room_row date_in date_out)
     \<subseteq> set (shown (booking_submit engine guests_df room_row selected_guest
                        date_in date_out submit db))"
  using try_procedure_shown [of "preview_elements room_row date_in date_out" engine]
  by (auto simp: booking_submit_def Let_def no_db_action_def split: sum.splits)

text \<open>
  Claim C1, as stated, at a room whose price is 999.99 and a stay from 2024-06-01
  to 2024-06-04: three nights times the price is 2999.97, the form computes the
  double 3298501897979167 / 1099511627776 (a little above 2999.97) and shows
  3,000.
\<close>

theorem cost_preview_rounds_counterexample:
  "cost_preview
      \<lparr>room_id = 3, room_number = 101, type_name = str_of ''Lux'', price_per_night = 99999 / 100,
       status = STATUS_FREE\<rparr> 739038 739041
     = Some (3, Finite (3298501897979167 / 1099511627776))
   \<and> (3298501897979167 / 1099511627776 :: rat) \<noteq> 3 * (99999 / 100)
   \<and> preview_elements
      \<lparr>room_id = 3, room_number = 101, type_name = str_of ''Lux'', price_per_night = 99999 / 100,
       status = STATUS_FREE\<rparr> 739038 739041
     = [StMetricCost (Digits 3000) 3]
   \<and> rat_of_int 3000 \<noteq> 3 * (99999 / 100)"
  by code_simp

text \<open>
  Claim C1, amended. For a room with nightly price \<open>p\<close> and dates with
  \<open>date_out > date_in\<close>, the form computes \<open>nights = (date_out - date_in).days\<close>
  and \<open>cost = nights * float(p)\<close> in float arithmetic: the product of the number of
  nights and the double nearest to \<open>p\<close>, rounded to the nearest double. The metric
  it shows, whatever else the form does, carries this cost rounded to a whole
  number (a tie to the even one) and the number of nights. When \<open>p\<close> is a whole
  number \<open>k\<close> and \<open>nights * k\<close> is below \<open>2 ^ 53\<close> in absolute value, the computed and
  the shown cost are both \<open>nights * k\<close>.
\<close>

theorem cost_preview_float_product:
  fixes engine :: "('db, statement, 'r) engine"
  assumes "date_out > date_in"
  shows "cost_preview room_row date_in date_out
           = Some (date_out - date_in,
                   fmul (float_of_int (date_out - date_in))
                     (round_double (price_per_night room_row)))
       \<and> StMetricCost
            (format_0f (fmul (float_of_int (date_out - date_in))
                          (round_double (price_per_night room_row))))
            (date_out - date_in)
           \<in> set (shown (booking_submit engine guests_df room_row selected_guest
                            date_in date_out submit db))
       \<and> (price_per_night room_row = of_int k \<and> date_out - date_in < 2 ^ 53
            \<and> \<bar>(date_out - date_in) * k\<bar> < 2 ^ 53 \<longrightarrow>
            cost_preview room_row date_in date_out
              = Some (date_out - date_in, Finite (of_int ((date_out - date_in) * k)))
          \<and> StMetricCost (Digits ((date_out - date_in) * k)) (date_out - date_in)
              \<in> set (shown (booking_submit engine guests_df room_row selected_guest
                               date_in date_out submit db)))"
proof -
  let ?nights = "date_out - date_in"
  let ?cost = "fmul (float_of_int ?nights) (round_double (price_per_night room_row))"
  let ?shown = "set (shown (booking_submit engine guests_df room_row selected_guest
                              date_in date_out submit db))"
  have c: "cost_preview room_row date_in date_out = Some (?nights, ?cost)"
    using assms by (simp add: cost_preview_def days_between_def Let_def)
  then have "preview_elements room_row date_in date_out = [StMetricCost (format_0f ?cost) ?nights]"
    by (simp add: preview_elements_def)
  with preview_shown [of room_row date_in date_out engine guests_df selected_guest submit db]
  have s: "StMetricCost (format_0f ?cost) ?nights \<in> ?shown"
    by simp
  have whole: "?cost = Finite (of_int (?nights * k))"
    if "price_per_night room_row = of_int k" "?nights < 2 ^ 53" "\<bar>?nights * k\<bar> < 2 ^ 53"
    using fmul_whole [of ?nights k] assms that by simp
  have w1: "cost_preview room_row date_in date_out = Some (?nights, Finite (of_int (?nights * k)))"
    if "price_per_night room_row = of_int k \<and> ?nights < 2 ^ 53 \<and> \<bar>?nights * k\<bar> < 2 ^ 53"
    using c whole that by (simp only:)
  have w2: "StMetricCost (Digits (?nights * k)) ?nights \<in> ?shown"
    if "price_per_night room_row = of_int k \<and> ?nights < 2 ^ 53 \<and> \<bar>?nights * k\<bar> < 2 ^ 53"
    using s whole that by (simp only: format_0f_of_int)
  show ?thesis
    using c s w1 w2 by blast
qed

text \<open>
  Room 101 at 2000 a night from 2024-06-01 to 2024-06-04: three nights, 6000.
\<close>

theorem cost_preview_float_product_witness:
  "cost_preview
      \<lparr>room_id = 3, room_number = 101, type_name = str_of ''Lux'', price_per_night = 2000,
       status = STATUS_FREE\<rparr> 739038 739041 = Some (3, Finite 6000)
   \<and> StMetricCost (Digits 6000) 3 \<in> set (shown
        (booking_submit (\<lambda>sql db. (db @ [sql], Inr ())) []
           \<lparr>room_id = 3, room_number = 101, type_name = str_of ''Lux'', price_per_night = 2000,
            status = STATUS_FREE\<rparr>
           None 739038 739041 True []))"
proof -
  have later: "(739041::int) > 739038" by simp
  have whole: "price_per_night
      \<lparr>room_id = 3, room_number = 101, type_name = str_of ''Lux'', price_per_night = 2000,
       status = STATUS_FREE\<rparr> = of_int 2000
    \<and> (739041::int) - 739038 < 2 ^ 53 \<and> \<bar>((739041::int) - 739038) * 2000\<bar> < 2 ^ 53"
    by simp
  from cost_preview_float_product
      [OF later, where k = 2000 and db = "[]"
         and engine = "\<lambda>sql db. (db @ [sql], Inr ())" and guests_df = "[]"
         and room_row = "\<lparr>room_id = 3, room_number = 101, type_name = str_of ''Lux'',
                          price_per_night = 2000, status = STATUS_FREE\<rparr>"
         and selected_guest = None and submit = True]
    whole
  have "cost_preview
      \<lparr>room_id = 3, room_number = 101, type_name = str_of ''Lux'', price_per_night = 2000,
       status = STATUS_FREE\<rparr> 739038 739041
       = Some (739041 - 739038, Finite (of_int ((739041 - 739038) * 2000)))
    \<and> StMetricCost (Digits ((739041 - 739038) * 2000)) (739041 - 739038) \<in> set (shown
        (booking_submit (\<lambda>sql db. (db @ [sql], Inr ())) []
           \<lparr>room_id = 3, room_number = 101, type_name = str_of ''Lux'', price_per_night = 2000,
            status = STATUS_FREE\<rparr>
           None 739038 739041 True []))"
    by blast
  then show ?thesis by simp
qed

section \<open>Cancellation (lines 363-379)\<close>

lemma map_of_dict_comprehension:
  "map_of (foldl (\<lambda>d row. AList.update (key row) (val row) d) d0 rows) k = Some v
     \<Longrightarrow> map_of d0 k = Some v \<or> (\<exists>row \<in> set rows. key row = k \<and> val row = v)"
proof (induction rows arbitrary: d0)
  case Nil
  then show ?case by simp
next
  case (Cons row rows)
  from Cons.prems have "map_of (foldl (\<lambda>d row. AList.update (key row) (val row) d)
      (AList.update (key row) (val row) d0) rows) k = Some v" by simp
  from Cons.IH [OF this] show ?case
    by (auto simp: update_conv' split: if_splits)
qed

lemma keys_dict_comprehension:
  "fst ` set (foldl (\<lambda>d row. AList.update (key row) (val row) d) d0 rows)
     = fst ` set d0 \<union> key ` set rows"
proof (induction rows arbitrary: d0)
  case Nil
  then show ?case by simp
next
  case (Cons row rows)
  show ?case
    unfolding foldl_Cons Cons.IH by (auto simp: dom_update)
qed

lemma booking_options_value:
  assumes "map_of (booking_options label df) l = Some b"
  shows "\<exists>row \<in> set df. booking_status row = ACTIVE \<and> booking_id row = b"
  using map_of_dict_comprehension [OF assms [unfolded booking_options_def]]
  by (auto simp: active_df_def)

lemma booking_options_nonempty:
  "active_df df \<noteq> [] \<Longrightarrow> booking_options label df \<noteq> []"
  using keys_dict_comprehension [of label booking_id "[]" "active_df df"]
  by (auto simp: booking_options_def)

lemma st_selectbox_member:
  "st_selectbox options pick = Some x \<Longrightarrow> x \<in> set options"
  unfolding st_selectbox_def
  by (cases options) (auto split: if_splits simp: nth_Cons split: nat.splits)

lemma st_selectbox_nonempty:
  "options \<noteq> [] \<Longrightarrow> \<exists>x. st_selectbox options pick = Some x"
  by (auto simp: st_selectbox_def split: list.splits)

lemma dict_getitem_selected:
  assumes "d \<noteq> []"
  shows "\<exists>k v. st_selectbox (map fst d) pick = Some k \<and> dict_getitem d (Some k) = Inr v \<and> map_of d k = Some v"
proof -
  from assms obtain k where k: "st_selectbox (map fst d) pick = Some k"
    using st_selectbox_nonempty [of "map fst d" pick] by auto
  then have "k \<in> fst ` set d" using st_selectbox_member by fastforce
  then obtain v where "map_of d k = Some v"
    by (metis domD dom_map_of_conv_image_fst)
  with k show ?thesis by (auto simp: dict_getitem_def)
qed

lemma cancel_section_executes:
  "EvExecute s \<in> set (db_events (cancel_section engine label df pick clicked db))
     \<longleftrightarrow> clicked \<and> active_df df \<noteq> [] \<and>
         (\<exists>l b. st_selectbox (map fst (booking_options label df)) pick = Some l
               \<and> map_of (booking_options label df) l = Some b \<and> s = CancelBooking b)"
proof (cases "clicked \<and> active_df df \<noteq> []")
  case False
  then show ?thesis by (auto simp: cancel_section_def Let_def no_db_action_def)
next
  case True
  then obtain k v where kv: "st_selectbox (map fst (booking_options label df)) pick = Some k"
    "dict_getitem (booking_options label df) (Some k) = Inr v"
    "map_of (booking_options label df) k = Some v"
    using dict_getitem_selected [OF booking_options_nonempty] by blast
  with True show ?thesis
    by (auto simp: cancel_section_def Let_def try_procedure_executes)
qed

text \<open>
  Claim C8. Any statement the cancellation section executes is a \<open>cancel_booking\<close>
  call with the \<open>booking_id\<close> of a row of the listing whose status is
  \<open>'active'\<close>. When the listing has no active row the section shows the note and
  executes nothing, whether or not a click is reported. When it has one, a click
  cancels an active row.
\<close>

theorem cancel_only_active:
  fixes engine :: "('db, statement, 'r) engine"
  shows "(\<forall>s. EvExecute s \<in> set (db_events (cancel_section engine label df pick clicked db)) \<longrightarrow>
            (\<exists>row \<in> set df. booking_status row = ACTIVE \<and> s = CancelBooking (booking_id row)))
       \<and> ((\<forall>row \<in> set df. booking_status row \<noteq> ACTIVE) \<longrightarrow>
            cancel_section engine label df pick clicked db = no_db_action db [StInfo MsgNoActive]
          \<and> db_events (cancel_section engine label df pick clicked db) = [])
       \<and> ((\<exists>row \<in> set df. booking_status row = ACTIVE) \<longrightarrow>
            (\<exists>row \<in> set df. booking_status row = ACTIVE
               \<and> EvExecute (CancelBooking (booking_id row))
                    \<in> set (db_events (cancel_section engine label df pick True db))))"
proof -
  have none: "active_df df = []" if "\<forall>row \<in> set df. booking_status row \<noteq> ACTIVE"
    using that by (simp add: active_df_def filter_empty_conv)
  have some: "active_df df \<noteq> []" if "\<exists>row \<in> set df. booking_status row = ACTIVE"
    using that by (auto simp: active_df_def filter_empty_conv)
  have 1: "\<exists>row \<in> set df. booking_status row = ACTIVE \<and> s = CancelBooking (booking_id row)"
    if "EvExecute s \<in> set (db_events (cancel_section engine label df pick clicked db))" for s
    using that booking_options_value unfolding cancel_section_executes by blast
  have 2: "cancel_section engine label df pick clicked db = no_db_action db [StInfo MsgNoActive]"
    if "\<forall>row \<in> set df. booking_status row \<noteq> ACTIVE"
    using none [OF that] by (simp add: cancel_section_def)
  have 3: "\<exists>row \<in> set df. booking_status row = ACTIVE
               \<and> EvExecute (CancelBooking (booking_id row))
                    \<in> set (db_events (cancel_section engine label df pick True db))"
    if "\<exists>row \<in> set df. booking_status row = ACTIVE"
  proof -
    from some [OF that] obtain k v where
      "st_selectbox (map fst (booking_options label df)) pick = Some k"
      "map_of (booking_options label df) k = Some v"
      using dict_getitem_selected [OF booking_options_nonempty] by blast
    then show ?thesis
      using booking_options_value some [OF that] unfolding cancel_section_executes by blast
  qed
  show ?thesis using 1 2 3 by (simp add: no_db_action_def) 
qed

text \<open>
  A listing with the cancelled booking 6 and the active booking 5: the click cancels
  booking 5. With booking 6 alone nothing is executed.
\<close>

theorem cancel_only_active_witness:
  "db_events (cancel_section (\<lambda>sql db. (db @ [sql], Inr ())) guest
      [\<lparr>booking_id = 6, guest = str_of ''Ann'', room_no = 101, check_in = 739038,
        check_out = 739041, cost = 6000, booking_status = CANCELLED\<rparr>,
       \<lparr>booking_id = 5, guest = str_of ''Bob'', room_no = 102, check_in = 739038,
        check_out = 739039, cost = 1500, booking_status = ACTIVE\<rparr>] 0 True [])
     = [EvConnect, EvExecute (CancelBooking 5), EvCommit, EvClose]
   \<and> db_events (cancel_section (\<lambda>sql db. (db @ [sql], Inr ())) guest
      [\<lparr>booking_id = 6, guest = str_of ''Ann'', room_no = 101, check_in = 739038,
        check_out = 739041, cost = 6000, booking_status = CANCELLED\<rparr>] 0 True [])
     = []"
proof -
  let ?engine = "\<lambda>sql db. (db @ [sql], Inr ()) :: statement list \<times> (exc + unit)"
  let ?ann = "\<lparr>booking_id = 6, guest = str_of ''Ann'', room_no = 101, check_in = 739038,
        check_out = 739041, cost = 6000, booking_status = CANCELLED\<rparr>"
  let ?bob = "\<lparr>booking_id = 5, guest = str_of ''Bob'', room_no = 102, check_in = 739038,
        check_out = 739039, cost = 1500, booking_status = ACTIVE\<rparr>"
  have differ: "CANCELLED \<noteq> ACTIVE"
    by (simp add: ACTIVE_def CANCELLED_def str_of_def)
  have "EvExecute (CancelBooking 5)
          \<in> set (db_events (cancel_section ?engine guest [?ann, ?bob] 0 True []))"
    using cancel_only_active
      [where df = "[?ann, ?bob]" and engine = ?engine and label = guest and pick = 0
         and db = "[]" and clicked = True] differ
    by simp
  moreover have "db_events (cancel_section ?engine guest [?ann, ?bob] 0 True [])
      = [EvConnect, EvExecute (CancelBooking 5), EvCommit, EvClose]"
    using differ
    by (simp add: cancel_section_def active_df_def booking_options_def st_selectbox_def
        dict_getitem_def try_procedure_def run_procedure_returns)
  moreover have "db_events (cancel_section ?engine guest [?ann] 0 True []) = []"
    using cancel_only_active
      [where df = "[?ann]" and engine = ?engine and label = guest and pick = 0
         and db = "[]" and clicked = True] differ
    by (simp add: no_db_action_def)
  ultimately show ?thesis by simp
qed

section \<open>Dashboard (lines 144-184)\<close>

lemma STATUS_FREE_not_OCCUPIED: "STATUS_FREE \<noteq> STATUS_OCCUPIED"
  by (simp add: STATUS_FREE_def STATUS_OCCUPIED_def)

text \<open>
  Claim C5. For every listing of \<open>room_status_view\<close>: a room adds one to the
  occupied count exactly when its status is the view's "occupied" value, and one
  to the free count otherwise, so a room whose status is the view's "free" value
  is counted as free and not as occupied; the free count and the occupied count
  add up to the number of rooms. (In app.py the two values are Russian words, the
  constants \<open>STATUS_OCCUPIED\<close> and \<open>STATUS_FREE\<close>.)
\<close>

theorem occupancy_counts:
  "occupied_rooms [] = 0 \<and> free_rooms [] = 0
   \<and> occupied_rooms (xs @ s # ys)
        = occupied_rooms (xs @ ys) + (if s = STATUS_OCCUPIED then 1 else 0)
   \<and> free_rooms (xs @ s # ys)
        = free_rooms (xs @ ys) + (if s = STATUS_OCCUPIED then 0 else 1)
   \<and> free_rooms (xs @ STATUS_FREE # ys) = free_rooms (xs @ ys) + 1
   \<and> occupied_rooms (xs @ STATUS_FREE # ys) = occupied_rooms (xs @ ys)
   \<and> free_rooms rooms_df + occupied_rooms rooms_df = total_rooms rooms_df
   \<and> occupied_rooms rooms_df = int (length (filter (\<lambda>s. s = STATUS_OCCUPIED) rooms_df))
   \<and> free_rooms rooms_df = int (length (filter (\<lambda>s. s \<noteq> STATUS_OCCUPIED) rooms_df))"
proof -
  have "length rooms_df = length (filter (\<lambda>s. s = STATUS_OCCUPIED) rooms_df)
          + length (filter (\<lambda>s. s \<noteq> STATUS_OCCUPIED) rooms_df)"
    by (rule sum_length_filter_compl [symmetric])
  then have "free_rooms rooms_df = int (length (filter (\<lambda>s. s \<noteq> STATUS_OCCUPIED) rooms_df))"
    by (simp add: free_rooms_def total_rooms_def occupied_rooms_def)
  then show ?thesis
    using STATUS_FREE_not_OCCUPIED
    by (simp add: free_rooms_def total_rooms_def occupied_rooms_def)
qed


lemma filter_key_find:
  assumes "distinct (map key xs)"
  shows "filter (\<lambda>x. k = key x) xs = (case find (\<lambda>x. k = key x) xs of None \<Rightarrow> [] | Some x \<Rightarrow> [x])"
  using assms
proof (induction xs)
  case Nil
  then show ?case by simp
next
  case (Cons x xs)
  show ?case
  proof (cases "k = key x")
    case True
    with Cons.prems have "filter (\<lambda>y. k = key y) xs = []"
      by (auto simp: filter_empty_conv)
    with True show ?thesis by simp
  next
    case False
    with Cons show ?thesis by simp
  qed
qed

lemma revenue_join_keys:
  assumes "distinct (map r_room_id rooms)" and "distinct (map rt_type_id room_types)"
  shows "revenue_join bookings rooms room_types
           = concat (map (\<lambda>b. case type_name_of rooms room_types b of
                                  None \<Rightarrow> []
                                | Some n \<Rightarrow> if b_status b = ACTIVE then [(n, b_total_cost b)] else [])
                      bookings)"
proof -
  have "concat (map (\<lambda>r. if b_room_id b = r_room_id r
                           then concat (map (\<lambda>rt. if r_type_id r = rt_type_id rt
                                   then if b_status b = ACTIVE then [(rt_type_name rt, b_total_cost b)] else []
                                   else []) room_types)
                           else []) rooms)
        = (case type_name_of rooms room_types b of
              None \<Rightarrow> []
            | Some n \<Rightarrow> if b_status b = ACTIVE then [(n, b_total_cost b)] else [])" (is "?l = ?r") for b
  proof -
    have inner: "concat (map (\<lambda>rt. if r_type_id r = rt_type_id rt then f rt else []) room_types)
           = concat (map f (filter (\<lambda>rt. r_type_id r = rt_type_id rt) room_types))" 
      for r :: room and f :: "room_type \<Rightarrow> (pystr \<times> rat) list"
      by (induction room_types) simp_all
    have outer: "concat (map (\<lambda>r. if b_room_id b = r_room_id r then g r else []) rooms)
           = concat (map g (filter (\<lambda>r. b_room_id b = r_room_id r) rooms))" for g :: "room \<Rightarrow> (pystr \<times> rat) list"
      by (induction rooms) simp_all
    show ?thesis
      unfolding outer inner
      by (simp add: filter_key_find [OF assms(1)] filter_key_find [OF assms(2)] type_name_of_def
          split: option.splits)
  qed
  then show ?thesis
    by (simp add: revenue_join_def)
qed












text \<open>
  When every booking's room and that room's type exist, the per-type figures add
  up to the sum of \<open>total_cost\<close> over the active bookings.
\<close>

lemma sum_list_groups:
  fixes js :: "('k \<times> rat) list"
  assumes "distinct ns" and "fst ` set js \<subseteq> set ns"
  shows "(\<Sum>n\<leftarrow>ns. sum_list (map snd (filter (\<lambda>(m, c). m = n) js))) = sum_list (map snd js)"
  using assms(2)
proof (induction js)
  case Nil
  then show ?case by simp
next
  case (Cons j js)
  obtain m c where j: "j = (m, c)" by (cases j)
  with Cons.prems have m: "m \<in> set ns" by simp
  have single: "(\<Sum>n\<leftarrow>ns. if m = n then c else 0) = c"
    using assms(1) m by (simp add: sum_list_distinct_conv_sum_set)
  have "(\<Sum>n\<leftarrow>ns. sum_list (map snd (filter (\<lambda>(m, c). m = n) (j # js))))
      = (\<Sum>n\<leftarrow>ns. (if m = n then c else 0) + sum_list (map snd (filter (\<lambda>(m, c). m = n) js)))"
    by (rule arg_cong [where f = sum_list]) (simp add: j)
  also have "\<dots> = c + sum_list (map snd js)"
    using Cons single by (simp add: sum_list_addf)
  finally show ?case by (simp add: j)
qed

lemma revenue_by_type_total:
  assumes "distinct (map r_room_id rooms)" and "distinct (map rt_type_id room_types)"
    and "\<forall>b \<in> set bookings. type_name_of rooms room_types b \<noteq> None"
  shows "sum_list (map snd (revenue_by_type bookings rooms room_types))
           = (\<Sum>b\<leftarrow>bookings. if b_status b = ACTIVE then b_total_cost b else 0)"
proof -
  have "sum_list (map snd (revenue_by_type bookings rooms room_types))
          = sum_list (map snd (revenue_join bookings rooms room_types))"
    using sum_list_groups [of "remdups (map fst (revenue_join bookings rooms room_types))"
        "revenue_join bookings rooms room_types"]
    by (simp add: revenue_by_type_def Let_def comp_def)
  also have "\<dots> = (\<Sum>b\<leftarrow>bookings. if b_status b = ACTIVE then b_total_cost b else 0)"
    unfolding revenue_join_keys [OF assms(1,2)] using assms(3)
    by (induction bookings) auto
  finally show ?thesis .
qed

text \<open>
  Whole, non-negative costs whose sum is below \<open>2 ^ 53\<close> are added without rounding
  from left to right: the float sum is then the sum of the numbers.
\<close>

lemma foldl_fadd_whole:
  assumes "0 \<le> s" and "\<forall>k \<in> set ks. 0 \<le> k" and "s + sum_list ks < 2 ^ 53"
  shows "foldl fadd (Finite (of_int s)) (map (\<lambda>k. round_double (of_int k)) ks)
           = Finite (of_int (s + sum_list ks))"
  using assms
proof (induction ks arbitrary: s)
  case Nil
  then show ?case by simp
next
  case (Cons k ks)
  have tail: "0 \<le> sum_list ks"
    using Cons.prems(2) by (intro sum_list_nonneg) simp
  have k0: "0 \<le> k" using Cons.prems(2) by simp
  have k: "\<bar>k\<bar> < 2 ^ 53" using Cons.prems(1,3) tail k0 by simp
  have sk: "\<bar>s + k\<bar> < 2 ^ 53" using Cons.prems(1,3) tail k0 by simp
  have "fadd (Finite (of_int s)) (round_double (of_int k)) = round_double (of_int (s + k))"
    by (simp add: round_double_of_int [OF k])
  then have step: "fadd (Finite (of_int s)) (round_double (of_int k)) = Finite (of_int (s + k))"
    by (simp only: round_double_of_int [OF sk])
  have "foldl fadd (Finite (of_int (s + k))) (map (\<lambda>k. round_double (of_int k)) ks)
          = Finite (of_int (s + k + sum_list ks))"
    using Cons.prems k0 by (intro Cons.IH) (simp_all add: add.assoc)
  then show ?case
    by (simp add: step add.assoc del: of_int_add)
qed

lemma left_sum_whole:
  assumes "\<forall>k \<in> set ks. 0 \<le> k" and "sum_list ks < 2 ^ 53"
  shows "left_sum (map (\<lambda>k. round_double (of_int k)) ks) = Finite (of_int (sum_list ks))"
  using foldl_fadd_whole [of 0 ks] assms by (simp add: left_sum_def)

section \<open>History search (lines 401-403)\<close>

text \<open>
  A search string without special characters is compiled to itself, and the filter
  keeps the rows whose guest name contains it up to case.
\<close>

lemma re_compile_literal:
  assumes "set search \<inter> set special_chars = {}"
  shows "re_compile search = Some (map Literal search)"
  using assms by (induction search) (auto simp: special_chars_def)

lemma match_here_literal: "match_here lower (map Literal n) s = prefix_ci lower n s"
  by (induction lower n s rule: prefix_ci.induct) simp_all

lemma re_search_literal: "re_search lower (map Literal n) s = substring_ci lower n s"
  by (induction s) (simp_all add: match_here_literal)

lemma boolean_index_map: "boolean_index df (map P df) = filter P df"
  by (induction df) (simp_all add: boolean_index_def)

lemma history_search_literal:
  assumes "set search \<inter> set special_chars = {}"
  shows "history_search lower search df
           = Some (if search = [] then df else filter (name_contains_ci lower search) df)"
proof -
  have eq: "map (\<lambda>x. case x of None \<Rightarrow> False | Some s \<Rightarrow> re_search lower (map Literal search) s)
              (map history_guest df)
          = map (name_contains_ci lower search) df"
    by (simp add: name_contains_ci_def re_search_literal split: option.splits)
  show ?thesis
    unfolding history_search_def str_contains_def re_compile_literal [OF assms] option.case
      option.map eq boolean_index_map
    by simp
qed

text \<open>
  Claim C7, at the search string \<open>.\<close> and a history of one entry whose guest is
  Ivan: the name does not contain a dot, and the entry is displayed. The filter
  reads the search string as a regular expression, in which the dot stands for
  any character.
\<close>

theorem history_search_dot_matches_any_name:
  "history_search ascii_lower (str_of ''.'')
     [\<lparr>history_id = 1, history_guest = Some (str_of ''Ivan''), history_action = ACTIVE\<rparr>]
     = Some [\<lparr>history_id = 1, history_guest = Some (str_of ''Ivan''), history_action = ACTIVE\<rparr>]
   \<and> \<not> name_contains_ci ascii_lower (str_of ''.'')
         \<lparr>history_id = 1, history_guest = Some (str_of ''Ivan''), history_action = ACTIVE\<rparr>"
  by (simp add: history_search_def str_contains_def boolean_index_def name_contains_ci_def
      str_of_def ascii_lower_def)

end
